theory Spec2Isabelle
  imports Complex_Main
begin

section \<open>Tensors of the library, as far as the notebook uses them\<close>

text \<open>
  The notebook \<^verbatim>\<open>intro.ipynb\<close> trains a linear model with the tensor library's
  automatic differentiation. The library is not part of the repository; the operations
  the training cells call are modelled here with the behaviour the library documents.
  Tensor elements are 32-bit floats in the library and real numbers here, as in the
  data model of the specification; rounding, overflow and NaN are outside the model.

  Only tensors of dimension 0 (\<open>Scalar\<close>) and 1 (\<open>Vec\<close>) occur in the training cells.
\<close>

datatype error = RuntimeError | TypeError | AttributeError

datatype tensor = Scalar real | Vec "real list"

fun numel :: "tensor \<Rightarrow> nat" where
  "numel (Scalar p) = 1"
| "numel (Vec v) = length v"

fun shape :: "tensor \<Rightarrow> nat list" where
  "shape (Scalar p) = []"
| "shape (Vec v) = [length v]"

text \<open>
  An elementwise binary operation with broadcasting: a 0-d tensor or a 1-d tensor with one
  element is stretched to the other operand's shape; two 1-d tensors of other, different
  sizes raise \<open>RuntimeError\<close>.
\<close>

fun broadcast :: "(real \<Rightarrow> real \<Rightarrow> real) \<Rightarrow> tensor \<Rightarrow> tensor \<Rightarrow> error + tensor" where
  "broadcast f (Scalar p) (Scalar q) = Inr (Scalar (f p q))"
| "broadcast f (Scalar p) (Vec v) = Inr (Vec (map (f p) v))"
| "broadcast f (Vec u) (Scalar q) = Inr (Vec (map (\<lambda>a. f a q) u))"
| "broadcast f (Vec u) (Vec v) =
     (if length u = length v then Inr (Vec (map2 f u v))
      else if length u = 1 then Inr (Vec (map (f (hd u)) v))
      else if length v = 1 then Inr (Vec (map (\<lambda>a. f a (hd v)) u))
      else Inl RuntimeError)"

definition add :: "tensor \<Rightarrow> tensor \<Rightarrow> error + tensor" where
  "add s t = broadcast (+) s t"

definition sub :: "tensor \<Rightarrow> tensor \<Rightarrow> error + tensor" where
  "sub s t = broadcast (-) s t"

definition mul :: "tensor \<Rightarrow> tensor \<Rightarrow> error + tensor" where
  "mul s t = broadcast (*) s t"

text \<open>\<^verbatim>\<open>t ** n\<close> for a Python int \<open>n \<ge> 0\<close>, and the multiplication of a tensor by a Python number.\<close>

fun pow :: "tensor \<Rightarrow> nat \<Rightarrow> tensor" where
  "pow (Scalar p) n = Scalar (p ^ n)"
| "pow (Vec v) n = Vec (map (\<lambda>a. a ^ n) v)"

fun scale :: "real \<Rightarrow> tensor \<Rightarrow> tensor" where
  "scale k (Scalar p) = Scalar (k * p)"
| "scale k (Vec v) = Vec (map (\<lambda>a. k * a) v)"

text \<open>\<^verbatim>\<open>torch.dot\<close> takes two 1-d tensors of the same size and returns a 0-d tensor.\<close>

fun dot :: "tensor \<Rightarrow> tensor \<Rightarrow> error + tensor" where
  "dot (Vec u) (Vec v) =
     (if length u = length v then Inr (Scalar (sum_list (map2 (*) u v))) else Inl RuntimeError)"
| "dot s t = Inl RuntimeError"

text \<open>
  \<^verbatim>\<open>torch.sum\<close> and \<^verbatim>\<open>torch.mean\<close> reduce to a 0-d tensor. The mean of an empty tensor is
  NaN in the library; the model has no NaN and reports that case as an error.
\<close>

fun sum_t :: "tensor \<Rightarrow> tensor" where
  "sum_t (Scalar p) = Scalar p"
| "sum_t (Vec v) = Scalar (sum_list v)"

fun mean :: "tensor \<Rightarrow> error + tensor" where
  "mean (Scalar p) = Inr (Scalar p)"
| "mean (Vec v) = (if v = [] then Inl RuntimeError else Inr (Scalar (sum_list v / real (length v))))"

text \<open>\<^verbatim>\<open>torch.ones([N])\<close>: a negative size raises \<open>RuntimeError\<close>.\<close>

definition ones :: "int \<Rightarrow> error + tensor" where
  "ones N = (if N < 0 then Inl RuntimeError else Inr (Vec (replicate (nat N) 1)))"

fun zeros_like :: "tensor \<Rightarrow> tensor" where
  "zeros_like (Scalar p) = Scalar 0"
| "zeros_like (Vec v) = Vec (replicate (length v) 0)"

fun ones_like :: "tensor \<Rightarrow> tensor" where
  "ones_like (Scalar p) = Scalar 1"
| "ones_like (Vec v) = Vec (replicate (length v) 1)"

text \<open>Sequencing of calls that may raise: the first exception ends the computation.\<close>

fun bind :: "error + 'a \<Rightarrow> ('a \<Rightarrow> error + 'b) \<Rightarrow> error + 'b" where
  "bind (Inl e) f = Inl e"
| "bind (Inr v) f = f v"

section \<open>Reverse-mode differentiation\<close>

text \<open>
  Operations on tensors that require a gradient record a graph. The training cells build
  it from the leaves \<open>w\<close> and \<open>b\<close> with \<^verbatim>\<open>torch.dot\<close>, \<^verbatim>\<open>+\<close>, \<^verbatim>\<open>-\<close>, \<^verbatim>\<open>**\<close>, \<^verbatim>\<open>torch.sum\<close>
  and \<^verbatim>\<open>torch.mean\<close>; tensors that require no gradient are constants of the graph.
\<close>

datatype leaf = W | B

datatype graph =
    Leaf leaf
  | Const tensor
  | Dot graph graph
  | Add graph graph
  | Sub graph graph
  | Pow graph nat
  | Sum graph
  | Mean graph

type_synonym leaves = "leaf \<Rightarrow> tensor"

type_synonym grads = "leaf \<Rightarrow> tensor option"

fun forward :: "leaves \<Rightarrow> graph \<Rightarrow> error + tensor" where
  "forward env (Leaf l) = Inr (env l)"
| "forward env (Const t) = Inr t"
| "forward env (Dot p q) = bind (forward env p) (\<lambda>s. bind (forward env q) (\<lambda>t. dot s t))"
| "forward env (Add p q) = bind (forward env p) (\<lambda>s. bind (forward env q) (\<lambda>t. add s t))"
| "forward env (Sub p q) = bind (forward env p) (\<lambda>s. bind (forward env q) (\<lambda>t. sub s t))"
| "forward env (Pow p n) = bind (forward env p) (\<lambda>s. Inr (pow s n))"
| "forward env (Sum p) = bind (forward env p) (\<lambda>s. Inr (sum_t s))"
| "forward env (Mean p) = bind (forward env p) mean"

text \<open>
  The gradient that flows back into an operand of a broadcasting operation is summed over
  the elements the operand was stretched to.
\<close>

fun sum_to_size :: "tensor \<Rightarrow> tensor \<Rightarrow> tensor" where
  "sum_to_size (Scalar g) t = Scalar g"
| "sum_to_size (Vec g) (Scalar p) = Scalar (sum_list g)"
| "sum_to_size (Vec g) (Vec v) = (if length v = length g then Vec g else Vec [sum_list g])"

text \<open>The gradient of a reduction is the incoming 0-d gradient at every element of the operand.\<close>

fun expand_as :: "real \<Rightarrow> tensor \<Rightarrow> tensor" where
  "expand_as g (Scalar p) = Scalar g"
| "expand_as g (Vec v) = Vec (replicate (length v) g)"

fun item :: "tensor \<Rightarrow> error + real" where
  "item (Scalar p) = Inr p"
| "item (Vec v) = (case v of [p] \<Rightarrow> Inr p | _ \<Rightarrow> Inl RuntimeError)"

text \<open>
  A leaf accumulates: its \<^verbatim>\<open>.grad\<close> is \<open>None\<close> until the first gradient arrives and is
  added to from then on.
\<close>

fun accumulate :: "tensor option \<Rightarrow> tensor \<Rightarrow> error + tensor option" where
  "accumulate None g = Inr (Some g)"
| "accumulate (Some old) g = bind (add old g) (\<lambda>t. Inr (Some t))"

lemma bind_cong [fundef_cong]:
  "m = m' \<Longrightarrow> (\<And>v. m' = Inr v \<Longrightarrow> f v = f' v) \<Longrightarrow> bind m f = bind m' f'"
  by (cases m') auto

fun backward :: "leaves \<Rightarrow> graph \<Rightarrow> tensor \<Rightarrow> grads \<Rightarrow> error + grads" where
  "backward env (Leaf l) g gr = bind (accumulate (gr l) g) (\<lambda>a. Inr (gr(l := a)))"
| "backward env (Const t) g gr = Inr gr"
| "backward env (Dot p q) g gr =
     bind (forward env p) (\<lambda>s.
     bind (forward env q) (\<lambda>t.
     bind (mul g t) (\<lambda>gp.
     bind (mul g s) (\<lambda>gq.
     bind (backward env p gp gr) (\<lambda>gr1.
     backward env q gq gr1)))))"
| "backward env (Add p q) g gr =
     bind (forward env p) (\<lambda>s.
     bind (forward env q) (\<lambda>t.
     bind (backward env p (sum_to_size g s) gr) (\<lambda>gr1.
     backward env q (sum_to_size g t) gr1)))"
| "backward env (Sub p q) g gr =
     bind (forward env p) (\<lambda>s.
     bind (forward env q) (\<lambda>t.
     bind (backward env p (sum_to_size g s) gr) (\<lambda>gr1.
     backward env q (sum_to_size (scale (- 1) g) t) gr1)))"
| "backward env (Pow p n) g gr =
     bind (forward env p) (\<lambda>s.
     bind (mul g (scale (real n) (pow s (n - 1)))) (\<lambda>gp.
     backward env p gp gr))"
| "backward env (Sum p) g gr =
     bind (forward env p) (\<lambda>s.
     bind (item g) (\<lambda>k.
     backward env p (expand_as k s) gr))"
| "backward env (Mean p) g gr =
     bind (forward env p) (\<lambda>s.
     bind (item g) (\<lambda>k.
     backward env p (expand_as (k / real (numel s)) s) gr))"

text \<open>
  \<^verbatim>\<open>loss.backward()\<close>: the root must hold one element (else \<open>RuntimeError\<close>); the gradient
  that enters the graph is a tensor of ones of the root's shape.
\<close>

definition backward_call :: "leaves \<Rightarrow> graph \<Rightarrow> grads \<Rightarrow> error + grads" where
  "backward_call env out gr =
     bind (forward env out)
       (\<lambda>t. if numel t = 1 then backward env out (ones_like t) gr else Inl RuntimeError)"

section \<open>Random tensors\<close>

text \<open>
  \<^verbatim>\<open>torch.rand\<close> and \<^verbatim>\<open>torch.randn\<close> draw from the library's global generator. The
  generator is a parameter of the model: a state of some type \<open>'g\<close> (set by the seed) and
  two functions that draw one uniform and one standard normal number and advance the state.
  The size \<open>N\<close> is a Python int. The library refuses a negative size with \<open>RuntimeError\<close>;
  it also cannot build a tensor of more elements than its 64-bit sizes and the memory
  allow, and sizes outside \<open>-2^63 \<le> N < 2^63\<close> fail before the size is looked at. The
  model has no such upper limit: it follows the library for the sizes a run can have.
\<close>

record 'g generator =
  uniform :: "'g \<Rightarrow> real \<times> 'g"
  normal :: "'g \<Rightarrow> real \<times> 'g"

fun samples :: "('g \<Rightarrow> real \<times> 'g) \<Rightarrow> nat \<Rightarrow> 'g \<Rightarrow> real list \<times> 'g" where
  "samples f 0 s = ([], s)"
| "samples f (Suc n) s =
     (case f s of (v, s1) \<Rightarrow> case samples f n s1 of (vs, s2) \<Rightarrow> (v # vs, s2))"

definition rand :: "'g generator \<Rightarrow> int \<Rightarrow> 'g \<Rightarrow> error + (tensor \<times> 'g)" where
  "rand G N s =
     (if N < 0 then Inl RuntimeError
      else case samples (uniform G) (nat N) s of (vs, s1) \<Rightarrow> Inr (Vec vs, s1))"

definition randn :: "'g generator \<Rightarrow> int \<Rightarrow> 'g \<Rightarrow> error + (tensor \<times> 'g)" where
  "randn G N s =
     (if N < 0 then Inl RuntimeError
      else case samples (normal G) (nat N) s of (vs, s1) \<Rightarrow> Inr (Vec vs, s1))"

section \<open>The training cells\<close>

text \<open>
  The notebook exists in two versions whose training cells differ in three places only:
  the slope and the offset of the line the data come from, and the reduction of the loss.
  \<^verbatim>\<open>
  y = torch.dot(3*torch.ones([N]), x) - 2        y = torch.dot(2*torch.ones([N]), x) - 5
  loss = torch.sum((y_hat - y)**2)               loss = torch.mean((y_hat - y)**2)
  \<close>
\<close>

datatype reduction = SumReduction | MeanReduction

record variant =
  slope :: real
  offset :: real
  reduce :: reduction

definition first_variant :: variant where
  "first_variant = \<lparr>slope = 3, offset = 2, reduce = SumReduction\<rparr>"

definition second_variant :: variant where
  "second_variant = \<lparr>slope = 2, offset = 5, reduce = MeanReduction\<rparr>"

text \<open>
  The tensors the cells own: \<open>w\<close> and \<open>b\<close> with their \<^verbatim>\<open>.grad\<close> attributes. The state of
  the notebook is the state of the generator together with these.
\<close>

record params =
  w :: tensor
  w_grad :: "tensor option"
  b :: tensor
  b_grad :: "tensor option"

text \<open>
  \<^verbatim>\<open>
  w = torch.rand([N], requires_grad=True)
  b = torch.ones([1],requires_grad=True)
  \<close>
\<close>

definition initialise :: "'g generator \<Rightarrow> int \<Rightarrow> 'g \<Rightarrow> error + ('g \<times> params)" where
  "initialise G N seed =
     bind (rand G N seed) (\<lambda>(w0, s1).
     bind (ones 1) (\<lambda>b0.
     Inr (s1, \<lparr>w = w0, w_grad = None, b = b0, b_grad = None\<rparr>)))"

text \<open>\<^verbatim>\<open>y = torch.dot(3*torch.ones([N]), x) - 2\<close>\<close>

definition target :: "variant \<Rightarrow> int \<Rightarrow> tensor \<Rightarrow> error + tensor" where
  "target v N x =
     bind (ones N) (\<lambda>e.
     bind (dot (scale (slope v) e) x) (\<lambda>d.
     sub d (Scalar (offset v))))"

text \<open>
  \<^verbatim>\<open>
  y_hat = torch.dot(w, x) + b
  loss = torch.sum((y_hat - y)**2)
  \<close>
\<close>

definition y_hat :: "tensor \<Rightarrow> graph" where
  "y_hat x = Add (Dot (Leaf W) (Const x)) (Leaf B)"

definition loss :: "reduction \<Rightarrow> tensor \<Rightarrow> tensor \<Rightarrow> graph" where
  "loss r x y =
     (case r of
        SumReduction \<Rightarrow> Sum (Pow (Sub (y_hat x) (Const y)) 2)
      | MeanReduction \<Rightarrow> Mean (Pow (Sub (y_hat x) (Const y)) 2))"

definition leaves_of :: "params \<Rightarrow> leaves" where
  "leaves_of p = (\<lambda>l. case l of W \<Rightarrow> w p | B \<Rightarrow> b p)"

definition grads_of :: "params \<Rightarrow> grads" where
  "grads_of p = (\<lambda>l. case l of W \<Rightarrow> w_grad p | B \<Rightarrow> b_grad p)"

text \<open>The lines from the target to \<^verbatim>\<open>loss.backward()\<close>, for the input \<open>x\<close> of the iteration.\<close>

definition backprop :: "variant \<Rightarrow> int \<Rightarrow> tensor \<Rightarrow> params \<Rightarrow> error + params" where
  "backprop v N x p =
     bind (target v N x) (\<lambda>y.
     bind (backward_call (leaves_of p) (loss (reduce v) x y) (grads_of p)) (\<lambda>gr.
     Inr (p\<lparr>w_grad := gr W, b_grad := gr B\<rparr>)))"

text \<open>
  \<^verbatim>\<open>
  with torch.no_grad():
      w -= learning_rate * w.grad
      b -= learning_rate * b.grad
  \<close>
  A Python number times \<open>None\<close> raises \<open>TypeError\<close>. The subtraction in place keeps the
  shape of its target, and raises \<open>RuntimeError\<close> when the difference has another shape.
\<close>

definition times_grad :: "real \<Rightarrow> tensor option \<Rightarrow> error + tensor" where
  "times_grad k g = (case g of None \<Rightarrow> Inl TypeError | Some t \<Rightarrow> Inr (scale k t))"

definition isub :: "tensor \<Rightarrow> tensor \<Rightarrow> error + tensor" where
  "isub t d = bind (sub t d) (\<lambda>r. if shape r = shape t then Inr r else Inl RuntimeError)"

definition update :: "real \<Rightarrow> params \<Rightarrow> error + params" where
  "update learning_rate p =
     bind (times_grad learning_rate (w_grad p)) (\<lambda>dw.
     bind (isub (w p) dw) (\<lambda>w1.
     bind (times_grad learning_rate (b_grad p)) (\<lambda>db.
     bind (isub (b p) db) (\<lambda>b1.
     Inr (p\<lparr>w := w1, b := b1\<rparr>)))))"

text \<open>
  \<^verbatim>\<open>
  w.grad.zero_()
  b.grad.zero_()
  \<close>
  \<open>None\<close> has no method \<^verbatim>\<open>zero_\<close>: \<open>AttributeError\<close>.
\<close>

definition zero_inplace :: "tensor option \<Rightarrow> error + tensor option" where
  "zero_inplace g = (case g of None \<Rightarrow> Inl AttributeError | Some t \<Rightarrow> Inr (Some (zeros_like t)))"

definition zero_grads :: "params \<Rightarrow> error + params" where
  "zero_grads p =
     bind (zero_inplace (w_grad p)) (\<lambda>gw.
     bind (zero_inplace (b_grad p)) (\<lambda>gb.
     Inr (p\<lparr>w_grad := gw, b_grad := gb\<rparr>)))"

text \<open>The body of the loop after \<open>x\<close> is drawn, and the whole body.\<close>

definition step :: "variant \<Rightarrow> real \<Rightarrow> int \<Rightarrow> tensor \<Rightarrow> params \<Rightarrow> error + params" where
  "step v learning_rate N x p =
     bind (backprop v N x p) (\<lambda>p1.
     bind (update learning_rate p1) zero_grads)"

definition iteration ::
  "'g generator \<Rightarrow> variant \<Rightarrow> real \<Rightarrow> int \<Rightarrow> 'g \<times> params \<Rightarrow> error + ('g \<times> params)" where
  "iteration G v learning_rate N st =
     (case st of (s, p) \<Rightarrow>
        bind (randn G N s) (\<lambda>(x, s1).
        bind (step v learning_rate N x p) (\<lambda>p1.
        Inr (s1, p1))))"

text \<open>\<^verbatim>\<open>for i in range(epochs):\<close> runs its body \<open>n\<close> times, \<open>n = max(epochs, 0)\<close>.\<close>

fun for_loop ::
  "'g generator \<Rightarrow> variant \<Rightarrow> real \<Rightarrow> int \<Rightarrow> nat \<Rightarrow> 'g \<times> params \<Rightarrow> error + ('g \<times> params)" where
  "for_loop G v learning_rate N 0 st = Inr st"
| "for_loop G v learning_rate N (Suc n) st =
     bind (iteration G v learning_rate N st) (for_loop G v learning_rate N n)"

text \<open>The two cells in sequence: the configuration cell, then the loop.\<close>

definition train ::
  "'g generator \<Rightarrow> variant \<Rightarrow> int \<Rightarrow> real \<Rightarrow> int \<Rightarrow> 'g \<Rightarrow> error + ('g \<times> params)" where
  "train G v epochs learning_rate N seed =
     bind (initialise G N seed) (for_loop G v learning_rate N (nat epochs))"

text \<open>
  The state at the start of iteration \<open>i\<close> (counted from 0) of a run: the state the
  configuration cell leaves, after \<open>i\<close> passes through the body.
\<close>

definition at_start ::
  "'g generator \<Rightarrow> variant \<Rightarrow> real \<Rightarrow> int \<Rightarrow> 'g \<Rightarrow> nat \<Rightarrow> error + ('g \<times> params)" where
  "at_start G v learning_rate N seed i =
     bind (initialise G N seed) (for_loop G v learning_rate N i)"

text \<open>The values of \<open>w\<close> and \<open>b\<close> after each iteration of the loop, in order.\<close>

fun trajectory ::
  "'g generator \<Rightarrow> variant \<Rightarrow> real \<Rightarrow> int \<Rightarrow> nat \<Rightarrow> 'g \<times> params \<Rightarrow> error + (tensor \<times> tensor) list" where
  "trajectory G v learning_rate N 0 st = Inr []"
| "trajectory G v learning_rate N (Suc n) st =
     bind (iteration G v learning_rate N st) (\<lambda>st1.
     bind (trajectory G v learning_rate N n st1) (\<lambda>ts.
     Inr ((w (snd st1), b (snd st1)) # ts)))"

text \<open>
  The values of \<open>w\<close> and \<open>b\<close> a run goes through: after the configuration cell, and after
  each iteration.
\<close>

definition trajectory_of_run ::
  "'g generator \<Rightarrow> variant \<Rightarrow> int \<Rightarrow> real \<Rightarrow> int \<Rightarrow> 'g \<Rightarrow> error + (tensor \<times> tensor) list" where
  "trajectory_of_run G v epochs learning_rate N seed =
     bind (initialise G N seed) (\<lambda>st.
     bind (trajectory G v learning_rate N (nat epochs) st) (\<lambda>ts.
     Inr ((w (snd st), b (snd st)) # ts)))"

text \<open>The inputs \<open>x\<close> that \<open>n\<close> iterations draw, starting from the generator state \<open>s\<close>.\<close>

fun inputs :: "'g generator \<Rightarrow> int \<Rightarrow> nat \<Rightarrow> 'g \<Rightarrow> real list list" where
  "inputs G N 0 s = []"
| "inputs G N (Suc n) s =
     (case samples (normal G) (nat N) s of (xs, s1) \<Rightarrow> xs # inputs G N n s1)"

text \<open>The values of \<open>w\<close> and \<open>b\<close> after each step, for given inputs and no generator.\<close>

fun replay ::
  "variant \<Rightarrow> real \<Rightarrow> int \<Rightarrow> real list list \<Rightarrow> params \<Rightarrow> error + (tensor \<times> tensor) list" where
  "replay v learning_rate N [] p = Inr []"
| "replay v learning_rate N (xs # xss) p =
     bind (step v learning_rate N (Vec xs) p) (\<lambda>p1.
     bind (replay v learning_rate N xss p1) (\<lambda>ts.
     Inr ((w p1, b p1) # ts)))"

text \<open>A small deterministic generator, to run the model on.\<close>

definition demo :: "nat generator" where
  "demo = \<lparr>uniform = (\<lambda>s. (1 / (real s + 2), s + 1)),
           normal = (\<lambda>s. (real s - 3, s + 1))\<rparr>"

section \<open>The closed forms of the specification\<close>

text \<open>
  The specification gives the step in closed form, on real numbers: the prediction
  \<open>y_hat = dot(w, x) + b\<close>, the target \<open>y = a \<cdot> sum(x) + c\<close>, the gradients
  \<open>2(y_hat - y) \<cdot> x\<close> and \<open>2(y_hat - y)\<close>, and the update \<open>w - learning_rate \<cdot> gradient\<close>.
  The intercept \<open>c\<close> of a variant is the negated offset its cell subtracts.
\<close>

definition predicted :: "real list \<Rightarrow> real \<Rightarrow> real list \<Rightarrow> real" where
  "predicted ws bv xs = sum_list (map2 (*) ws xs) + bv"

definition expected :: "variant \<Rightarrow> real list \<Rightarrow> real" where
  "expected v xs = slope v * sum_list xs + (- offset v)"

definition closed_form_grad_w :: "real \<Rightarrow> real \<Rightarrow> real list \<Rightarrow> real list" where
  "closed_form_grad_w yh yv xs = map (\<lambda>xi. 2 * (yh - yv) * xi) xs"

definition closed_form_grad_b :: "real \<Rightarrow> real \<Rightarrow> real" where
  "closed_form_grad_b yh yv = 2 * (yh - yv)"

definition descend :: "real \<Rightarrow> real list \<Rightarrow> real list \<Rightarrow> real list" where
  "descend learning_rate ws gs = map2 (\<lambda>wi gi. wi - learning_rate * gi) ws gs"

text \<open>
  An accumulator is fresh for its tensor when nothing has been accumulated into it: it is
  unset, or it holds zeros of the tensor's shape. The parameters are ready for an
  iteration with inputs of size \<open>N\<close> when \<open>w\<close> has shape \<open>[N]\<close>, \<open>b\<close> has shape \<open>[1]\<close> and
  both accumulators are fresh.
\<close>

definition fresh :: "tensor \<Rightarrow> tensor option \<Rightarrow> bool" where
  "fresh t g = (g = None \<or> g = Some (zeros_like t))"

definition ready :: "int \<Rightarrow> params \<Rightarrow> bool" where
  "ready N p = (shape (w p) = [nat N] \<and> shape (b p) = [1] \<and>
     fresh (w p) (w_grad p) \<and> fresh (b p) (b_grad p))"

section \<open>One pass through the body of the loop\<close>

lemma dot_ones:
  "sum_list (map2 (*) (map (\<lambda>a. k * a) (replicate (length xs) 1)) xs) = (k::real) * sum_list xs"
  by (induction xs) (simp_all add: algebra_simps)

lemma target_closed:
  "0 \<le> N \<Longrightarrow> length xs = nat N \<Longrightarrow> target v N (Vec xs) = Inr (Scalar (expected v xs))"
  using dot_ones [of "slope v" xs] by (simp add: target_def ones_def sub_def expected_def)

lemma zero_plus: "map2 (+) (replicate (length gs) 0) gs = (gs :: real list)"
  by (induction gs) simp_all

lemma minus_scaled:
  "map2 (-) ws (map ((*) k) gs) = map2 (\<lambda>wi gi. wi - k * gi) ws (gs :: real list)"
  by (induction ws gs rule: list_induct2') simp_all

lemma accumulate_fresh:
  "fresh (Vec u) g \<Longrightarrow> length gs = length u \<Longrightarrow> accumulate g (Vec gs) = Inr (Some (Vec gs))"
  using zero_plus [of gs] by (auto simp: fresh_def add_def)


lemma backward_call_closed:
  assumes "length ws = length xs"
    and "fresh (Vec ws) (gr W)" and "fresh (Vec [bv]) (gr B)"
    and "env W = Vec ws" and "env B = Vec [bv]"
  shows "backward_call env (loss r (Vec xs) (Scalar yv)) gr =
     Inr (gr(W := Some (Vec (closed_form_grad_w (predicted ws bv xs) yv xs)),
             B := Some (Vec [closed_form_grad_b (predicted ws bv xs) yv])))"
  using assms
  by (cases r)
    (simp_all add: backward_call_def loss_def y_hat_def add_def sub_def mul_def accumulate_fresh
      closed_form_grad_w_def closed_form_grad_b_def predicted_def)

lemma backprop_closed:
  assumes "0 \<le> N" and "length xs = nat N" and "length ws = nat N"
    and "w p = Vec ws" and "b p = Vec [bv]"
    and "fresh (w p) (w_grad p)" and "fresh (b p) (b_grad p)"
  shows "backprop v N (Vec xs) p =
     Inr (p\<lparr>w_grad := Some (Vec (closed_form_grad_w (predicted ws bv xs) (expected v xs) xs)),
            b_grad := Some (Vec [closed_form_grad_b (predicted ws bv xs) (expected v xs)])\<rparr>)"
proof -
  have "backward_call (leaves_of p) (loss (reduce v) (Vec xs) (Scalar (expected v xs))) (grads_of p) =
     Inr ((grads_of p)(W := Some (Vec (closed_form_grad_w (predicted ws bv xs) (expected v xs) xs)),
             B := Some (Vec [closed_form_grad_b (predicted ws bv xs) (expected v xs)])))"
    using assms by (intro backward_call_closed) (simp_all add: leaves_of_def grads_of_def)
  then show ?thesis
    using assms by (simp add: backprop_def target_closed)
qed

lemma update_closed:
  assumes "w p = Vec ws" and "b p = Vec [bv]"
    and "w_grad p = Some (Vec gs)" and "b_grad p = Some (Vec [gb])"
    and "length gs = length ws"
  shows "update lr p = Inr (p\<lparr>w := Vec (descend lr ws gs), b := Vec [bv - lr * gb]\<rparr>)"
  using assms by (simp add: update_def times_grad_def isub_def sub_def descend_def minus_scaled)

lemma step_closed:
  assumes "0 \<le> N" and "length xs = nat N" and "length ws = nat N"
    and "w p = Vec ws" and "b p = Vec [bv]"
    and "fresh (w p) (w_grad p)" and "fresh (b p) (b_grad p)"
  shows "step v lr N (Vec xs) p =
     Inr \<lparr>w = Vec (descend lr ws (closed_form_grad_w (predicted ws bv xs) (expected v xs) xs)),
          w_grad = Some (Vec (replicate (nat N) 0)),
          b = Vec [bv - lr * closed_form_grad_b (predicted ws bv xs) (expected v xs)],
          b_grad = Some (Vec [0])\<rparr>"
proof -
  let ?gw = "closed_form_grad_w (predicted ws bv xs) (expected v xs) xs"
  let ?gb = "closed_form_grad_b (predicted ws bv xs) (expected v xs)"
  let ?p1 = "p\<lparr>w_grad := Some (Vec ?gw), b_grad := Some (Vec [?gb])\<rparr>"
  have len: "length ?gw = length ws"
    using assms by (simp add: closed_form_grad_w_def)
  have "update lr ?p1 = Inr (?p1\<lparr>w := Vec (descend lr ws ?gw), b := Vec [bv - lr * ?gb]\<rparr>)"
    using assms len by (intro update_closed) simp_all
  then show ?thesis
    using assms len by (simp add: step_def backprop_closed zero_grads_def zero_inplace_def)
qed


lemma descend_zero_rate: "length gs = length ws \<Longrightarrow> descend 0 ws gs = ws"
  by (induction ws gs rule: list_induct2') (simp_all add: descend_def)

text \<open>Sum and mean of a tensor of shape \<open>[1]\<close>, in the forward and in the backward pass.\<close>

lemma bind_eq_Inr: "bind m f = Inr y \<longleftrightarrow> (\<exists>u. m = Inr u \<and> f u = Inr y)"
  by (cases m) simp_all

lemma dot_scalar: "dot s t = Inr d \<Longrightarrow> \<exists>dv. d = Scalar dv"
  by (cases s; cases t) (auto split: if_splits)

lemma target_scalar: "target v N x = Inr y \<Longrightarrow> \<exists>yv. y = Scalar yv"
proof (cases x)
  case (Scalar q)
  assume "target v N x = Inr y"
  with Scalar show ?thesis
    by (simp add: target_def ones_def split: if_splits)
next
  case (Vec xs)
  assume "target v N x = Inr y"
  with Vec show ?thesis
    by (auto simp: target_def ones_def sub_def split: if_splits)
qed

lemma target_reduce: "target (v\<lparr>reduce := r\<rparr>) N x = target v N x"
  by (simp add: target_def)

lemma forward_sum_mean:
  assumes "env B = Vec [bv]"
  shows "forward env (loss SumReduction x (Scalar yv)) = forward env (loss MeanReduction x (Scalar yv))"
proof (cases "forward env (Dot (Leaf W) (Const x))")
  case (Inl e)
  then show ?thesis
    using assms by (simp add: loss_def y_hat_def)
next
  case (Inr d)
  then have "dot (env W) x = Inr d"
    by simp
  then obtain dv where "d = Scalar dv"
    using dot_scalar by blast
  with Inr show ?thesis
    using assms by (simp add: loss_def y_hat_def add_def sub_def)
qed

lemma backward_call_sum_mean:
  assumes "env B = Vec [bv]"
  shows "backward_call env (loss SumReduction x (Scalar yv)) gr =
         backward_call env (loss MeanReduction x (Scalar yv)) gr"
proof (cases "forward env (Dot (Leaf W) (Const x))")
  case (Inl e)
  then show ?thesis
    using assms by (simp add: backward_call_def loss_def y_hat_def)
next
  case (Inr d)
  then have "dot (env W) x = Inr d"
    by simp
  then obtain dv where "d = Scalar dv"
    using dot_scalar by blast
  with Inr show ?thesis
    using assms by (simp add: backward_call_def loss_def y_hat_def add_def sub_def mul_def)
qed

lemma step_sum_mean:
  assumes "shape (b p) = [1]"
  shows "step (v\<lparr>reduce := SumReduction\<rparr>) lr N x p = step (v\<lparr>reduce := MeanReduction\<rparr>) lr N x p"
proof -
  from assms obtain bs where bs: "b p = Vec bs" "length bs = 1"
    by (cases "b p") simp_all
  then obtain bv where bv: "b p = Vec [bv]"
    by (cases bs) simp_all
  have "backprop (v\<lparr>reduce := SumReduction\<rparr>) N x p = backprop (v\<lparr>reduce := MeanReduction\<rparr>) N x p"
  proof (cases "target v N x")
    case (Inl e)
    then show ?thesis
      by (simp add: backprop_def target_reduce)
  next
    case (Inr y)
    then obtain yv where "y = Scalar yv"
      using target_scalar by blast
    with Inr bv backward_call_sum_mean [of "leaves_of p" bv x yv "grads_of p"] show ?thesis
      by (simp add: backprop_def target_reduce leaves_of_def)
  qed
  then show ?thesis
    by (simp add: step_def)
qed

lemma step_keeps_shape_b: "step v lr N x p = Inr p1 \<Longrightarrow> shape (b p1) = shape (b p)"
  by (auto simp: step_def backprop_def update_def isub_def zero_grads_def bind_eq_Inr
      split: if_splits)

section \<open>The closed forms are the derivatives of the loss\<close>

text \<open>
  The closed forms are the partial derivatives of \<open>(dot(w, x) + b - y)\<^sup>2\<close> with respect to
  \<open>b\<close> and to each component of \<open>w\<close>: what the backward pass above computes is the
  gradient of what the forward pass computes.
\<close>

lemma predicted_update:
  "i < length ws \<Longrightarrow> length ws = length xs \<Longrightarrow>
   predicted (ws[i := t]) bv xs = predicted ws bv xs + (t - ws ! i) * xs ! i"
proof (induction ws xs arbitrary: i rule: list_induct2')
  case (4 a ws c xs)
  then show ?case
    by (cases i) (auto simp: predicted_def algebra_simps)
qed simp_all

lemma closed_forms_are_derivatives:
  assumes "i < length ws" and "length ws = length xs"
  shows "((\<lambda>t. (predicted ws t xs - yv)\<^sup>2) has_real_derivative
            closed_form_grad_b (predicted ws bv xs) yv) (at bv)"
    and "((\<lambda>t. (predicted (ws[i := t]) bv xs - yv)\<^sup>2) has_real_derivative
            closed_form_grad_w (predicted ws bv xs) yv xs ! i) (at (ws ! i))"
proof -
  show "((\<lambda>t. (predicted ws t xs - yv)\<^sup>2) has_real_derivative
            closed_form_grad_b (predicted ws bv xs) yv) (at bv)"
    unfolding predicted_def closed_form_grad_b_def
    by (auto intro!: derivative_eq_intros)
  have "((\<lambda>t. (predicted ws bv xs + (t - ws ! i) * xs ! i - yv)\<^sup>2) has_real_derivative
            2 * (predicted ws bv xs - yv) * xs ! i) (at (ws ! i))"
    by (auto intro!: derivative_eq_intros)
  moreover have "(\<lambda>t. (predicted (ws[i := t]) bv xs - yv)\<^sup>2) =
      (\<lambda>t. (predicted ws bv xs + (t - ws ! i) * xs ! i - yv)\<^sup>2)"
    using assms by (simp add: predicted_update)
  moreover have "closed_form_grad_w (predicted ws bv xs) yv xs ! i = 2 * (predicted ws bv xs - yv) * xs ! i"
    using assms by (simp add: closed_form_grad_w_def)
  ultimately show "((\<lambda>t. (predicted (ws[i := t]) bv xs - yv)\<^sup>2) has_real_derivative
            closed_form_grad_w (predicted ws bv xs) yv xs ! i) (at (ws ! i))"
    by simp
qed

section \<open>The loop\<close>

lemma length_samples: "length (fst (samples f n s)) = n"
proof (induction n arbitrary: s)
  case 0
  show ?case by simp
next
  case (Suc n)
  obtain v s1 where first: "f s = (v, s1)"
    by (cases "f s")
  obtain vs s2 where rest: "samples f n s1 = (vs, s2)"
    by (cases "samples f n s1")
  from Suc [of s1] rest have "length vs = n"
    by simp
  with first rest show ?case
    by simp
qed

lemma ready_shape:
  assumes "ready N p"
  obtains ws bv where "w p = Vec ws" and "length ws = nat N" and "b p = Vec [bv]"
proof -
  from assms have sw: "shape (w p) = [nat N]" and sb: "shape (b p) = [1]"
    by (simp_all add: ready_def)
  from sw obtain ws where ws: "w p = Vec ws" "length ws = nat N"
    by (cases "w p") simp_all
  from sb obtain bs where bs: "b p = Vec bs" "length bs = 1"
    by (cases "b p") simp_all
  then obtain bv where "bs = [bv]"
    by (cases bs) simp_all
  with ws bs show ?thesis
    using that by simp
qed

lemma iteration_closed:
  assumes "0 \<le> N" and "ready N p" and "w p = Vec ws" and "b p = Vec [bv]"
    and "samples (normal G) (nat N) s = (xs, s1)"
  shows "iteration G v lr N (s, p) =
     Inr (s1, \<lparr>w = Vec (descend lr ws (closed_form_grad_w (predicted ws bv xs) (expected v xs) xs)),
          w_grad = Some (Vec (replicate (nat N) 0)),
          b = Vec [bv - lr * closed_form_grad_b (predicted ws bv xs) (expected v xs)],
          b_grad = Some (Vec [0])\<rparr>)"
proof -
  from assms have lw: "length ws = nat N"
    by (simp add: ready_def)
  from length_samples [of "normal G" "nat N" s] assms have lx: "length xs = nat N"
    by simp
  from assms have fr: "fresh (w p) (w_grad p)" "fresh (b p) (b_grad p)"
    by (simp_all add: ready_def)
  from step_closed [OF assms(1) lx lw assms(3) assms(4) fr] assms show ?thesis
    by (simp add: iteration_def randn_def)
qed

lemma iteration_ready:
  assumes "0 \<le> N" and "ready N p"
  obtains s1 p1 where "iteration G v lr N (s, p) = Inr (s1, p1)" and "ready N p1"
    and "w_grad p1 = Some (Vec (replicate (nat N) 0))" and "b_grad p1 = Some (Vec [0])"
proof -
  from assms(2) obtain ws bv where sh: "w p = Vec ws" "length ws = nat N" "b p = Vec [bv]"
    by (rule ready_shape)
  obtain xs s1 where dr: "samples (normal G) (nat N) s = (xs, s1)"
    by (cases "samples (normal G) (nat N) s")
  from length_samples [of "normal G" "nat N" s] dr have lx: "length xs = nat N"
    by simp
  let ?p1 = "\<lparr>w = Vec (descend lr ws (closed_form_grad_w (predicted ws bv xs) (expected v xs) xs)),
          w_grad = Some (Vec (replicate (nat N) 0)),
          b = Vec [bv - lr * closed_form_grad_b (predicted ws bv xs) (expected v xs)],
          b_grad = Some (Vec [0])\<rparr>"
  have it: "iteration G v lr N (s, p) = Inr (s1, ?p1)"
    using assms sh dr by (intro iteration_closed) simp_all
  have "ready N ?p1"
    using sh lx by (simp add: ready_def fresh_def descend_def closed_form_grad_w_def)
  with it show ?thesis
    using that by simp
qed

lemma initialise_closed:
  assumes "0 \<le> N" and "samples (uniform G) (nat N) seed = (ws, s1)"
  shows "initialise G N seed = Inr (s1, \<lparr>w = Vec ws, w_grad = None, b = Vec [1], b_grad = None\<rparr>)"
  using assms by (simp add: initialise_def rand_def ones_def)

lemma initialise_negative: "N < 0 \<Longrightarrow> initialise G N seed = Inl RuntimeError"
  by (simp add: initialise_def rand_def)

lemma initialise_ready:
  assumes "0 \<le> N"
  obtains s1 p where "initialise G N seed = Inr (s1, p)" and "ready N p"
    and "w_grad p = None" and "b_grad p = None"
proof -
  obtain ws s1 where dr: "samples (uniform G) (nat N) seed = (ws, s1)"
    by (cases "samples (uniform G) (nat N) seed")
  from length_samples [of "uniform G" "nat N" seed] dr have "length ws = nat N"
    by simp
  then have "ready N \<lparr>w = Vec ws, w_grad = None, b = Vec [1], b_grad = None\<rparr>"
    by (simp add: ready_def fresh_def)
  with initialise_closed [OF assms dr] show ?thesis
    using that by simp
qed

lemma initialise_Inr_ready:
  assumes "initialise G N seed = Inr (s0, p0)"
  shows "0 \<le> N \<and> ready N p0"
proof -
  have n: "0 \<le> N"
  proof (rule ccontr)
    assume "\<not> 0 \<le> N"
    then have "initialise G N seed = Inl RuntimeError"
      by (intro initialise_negative) simp
    with assms show False
      by simp
  qed
  then obtain s1 p1 where "initialise G N seed = Inr (s1, p1)" and "ready N p1"
    by (rule initialise_ready)
  with assms n show ?thesis
    by simp
qed

lemma for_loop_ready:
  assumes "0 \<le> N" and "ready N p"
  shows "\<exists>s1 p1. for_loop G v lr N n (s, p) = Inr (s1, p1) \<and> ready N p1
    \<and> (0 < n \<longrightarrow> w_grad p1 = Some (Vec (replicate (nat N) 0)) \<and> b_grad p1 = Some (Vec [0]))"
  using assms(2)
proof (induction n arbitrary: s p)
  case 0
  then show ?case by simp
next
  case (Suc n)
  from assms(1) Suc.prems obtain s1 p1 where it: "iteration G v lr N (s, p) = Inr (s1, p1)"
    and r1: "ready N p1"
    and z1: "w_grad p1 = Some (Vec (replicate (nat N) 0))" "b_grad p1 = Some (Vec [0])"
    by (rule iteration_ready)
  from Suc.IH [OF r1, of s1] obtain s2 p2 where
    lp: "for_loop G v lr N n (s1, p1) = Inr (s2, p2)" and r2: "ready N p2"
    and z2: "0 < n \<longrightarrow> w_grad p2 = Some (Vec (replicate (nat N) 0)) \<and> b_grad p2 = Some (Vec [0])"
    by blast
  have "w_grad p2 = Some (Vec (replicate (nat N) 0)) \<and> b_grad p2 = Some (Vec [0])"
  proof (cases n)
    case 0
    with lp z1 show ?thesis by simp
  next
    case (Suc m)
    with z2 show ?thesis by simp
  qed
  with it lp r2 show ?case
    by simp
qed

lemma for_loop_add:
  "for_loop G v lr N (m + n) st = bind (for_loop G v lr N m st) (for_loop G v lr N n)"
proof (induction m arbitrary: st)
  case 0
  show ?case by simp
next
  case (Suc m)
  show ?case
  proof (cases "iteration G v lr N st")
    case (Inl e)
    then show ?thesis by simp
  next
    case (Inr st1)
    with Suc [of st1] show ?thesis by simp
  qed
qed

lemma for_loop_zero_rate:
  assumes "0 \<le> N" and "ready N p"
  shows "\<exists>s1 p1. for_loop G v 0 N n (s, p) = Inr (s1, p1) \<and> ready N p1 \<and> w p1 = w p \<and> b p1 = b p"
  using assms(2)
proof (induction n arbitrary: s p)
  case 0
  then show ?case by simp
next
  case (Suc n)
  from Suc.prems obtain ws bv where sh: "w p = Vec ws" "length ws = nat N" "b p = Vec [bv]"
    by (rule ready_shape)
  obtain xs s1 where dr: "samples (normal G) (nat N) s = (xs, s1)"
    by (cases "samples (normal G) (nat N) s")
  from length_samples [of "normal G" "nat N" s] dr have lx: "length xs = nat N"
    by simp
  let ?gw = "closed_form_grad_w (predicted ws bv xs) (expected v xs) xs"
  let ?p1 = "\<lparr>w = Vec (descend 0 ws ?gw), w_grad = Some (Vec (replicate (nat N) 0)),
          b = Vec [bv - 0 * closed_form_grad_b (predicted ws bv xs) (expected v xs)],
          b_grad = Some (Vec [0])\<rparr>"
  have it: "iteration G v 0 N (s, p) = Inr (s1, ?p1)"
    using assms(1) Suc.prems sh dr by (intro iteration_closed) simp_all
  have "length ?gw = length ws"
    using sh lx by (simp add: closed_form_grad_w_def)
  then have same: "w ?p1 = w p" "b ?p1 = b p"
    using sh by (simp_all add: descend_zero_rate)
  have r1: "ready N ?p1"
    using sh same by (simp add: ready_def fresh_def)
  from Suc.IH [OF r1, of s1] obtain s2 p2 where
    "for_loop G v 0 N n (s1, ?p1) = Inr (s2, p2)" "ready N p2" "w p2 = w ?p1" "b p2 = b ?p1"
    by blast
  with it same show ?case
    by simp
qed

lemma at_start_ready:
  assumes "0 \<le> N"
  obtains s p where "at_start G v lr N seed i = Inr (s, p)" and "ready N p"
    and "if i = 0 then w_grad p = None \<and> b_grad p = None
         else w_grad p = Some (Vec (replicate (nat N) 0)) \<and> b_grad p = Some (Vec [0])"
proof -
  from assms obtain s0 p0 where init: "initialise G N seed = Inr (s0, p0)" and r0: "ready N p0"
    and n0: "w_grad p0 = None" "b_grad p0 = None"
    by (rule initialise_ready)
  from for_loop_ready [OF assms r0, of G v lr i s0] obtain s p where
    lp: "for_loop G v lr N i (s0, p0) = Inr (s, p)" and r: "ready N p"
    and z: "0 < i \<longrightarrow> w_grad p = Some (Vec (replicate (nat N) 0)) \<and> b_grad p = Some (Vec [0])"
    by blast
  have "if i = 0 then w_grad p = None \<and> b_grad p = None
         else w_grad p = Some (Vec (replicate (nat N) 0)) \<and> b_grad p = Some (Vec [0])"
  proof (cases i)
    case 0
    with lp n0 show ?thesis by simp
  next
    case (Suc j)
    with z show ?thesis by simp
  qed
  with init lp r show ?thesis
    using that by (simp add: at_start_def)
qed

text \<open>
  A run of \<open>epochs\<close> iterations passes through the state \<open>at_start\<close> gives for each of
  its iterations, and goes on from there.
\<close>

lemma train_through_at_start:
  "i \<le> nat epochs \<Longrightarrow>
   train G v epochs lr N seed = bind (at_start G v lr N seed i) (for_loop G v lr N (nat epochs - i))"
proof -
  assume "i \<le> nat epochs"
  then have "nat epochs = i + (nat epochs - i)"
    by simp
  then have "for_loop G v lr N (nat epochs) = (\<lambda>st. bind (for_loop G v lr N i st) (for_loop G v lr N (nat epochs - i)))"
    using for_loop_add [of G v lr N i "nat epochs - i"] by (metis)
  then show ?thesis
    by (cases "initialise G N seed") (simp_all add: train_def at_start_def)
qed

lemma for_loop_sum_mean:
  "shape (b p) = [1] \<Longrightarrow>
   for_loop G (v\<lparr>reduce := SumReduction\<rparr>) lr N n (s, p) =
   for_loop G (v\<lparr>reduce := MeanReduction\<rparr>) lr N n (s, p)"
proof (induction n arbitrary: s p)
  case 0
  show ?case by simp
next
  case (Suc n)
  have same: "iteration G (v\<lparr>reduce := SumReduction\<rparr>) lr N (s, p) =
      iteration G (v\<lparr>reduce := MeanReduction\<rparr>) lr N (s, p)"
    using Suc.prems by (simp add: iteration_def step_sum_mean)
  show ?case
  proof (cases "iteration G (v\<lparr>reduce := MeanReduction\<rparr>) lr N (s, p)")
    case (Inl e)
    with same show ?thesis by simp
  next
    case (Inr st1)
    obtain s1 p1 where st1: "st1 = (s1, p1)"
      by (cases st1)
    with Inr have "\<exists>x. step (v\<lparr>reduce := MeanReduction\<rparr>) lr N x p = Inr p1"
      by (auto simp: iteration_def bind_eq_Inr)
    with Suc.prems have "shape (b p1) = [1]"
      using step_keeps_shape_b by fastforce
    with Suc.IH [of p1 s1] same Inr st1 show ?thesis
      by simp
  qed
qed

section \<open>Trajectories\<close>

lemma trajectory_replay:
  "0 \<le> N \<Longrightarrow> trajectory G v lr N n (s, p) = replay v lr N (inputs G N n s) p"
proof (induction n arbitrary: s p)
  case 0
  show ?case by simp
next
  case (Suc n)
  obtain xs s1 where dr: "samples (normal G) (nat N) s = (xs, s1)"
    by (cases "samples (normal G) (nat N) s")
  show ?case
  proof (cases "step v lr N (Vec xs) p")
    case (Inl e)
    with dr Suc.prems show ?thesis
      by (simp add: iteration_def randn_def)
  next
    case (Inr p1)
    with dr Suc.prems Suc.IH [OF Suc.prems, of s1 p1] show ?thesis
      by (simp add: iteration_def randn_def)
  qed
qed

lemma trajectory_of_run_replay:
  assumes "0 \<le> N" and "samples (uniform G) (nat N) seed = (ws, s1)"
  shows "trajectory_of_run G v epochs lr N seed =
     bind (replay v lr N (inputs G N (nat epochs) s1)
             \<lparr>w = Vec ws, w_grad = None, b = Vec [1], b_grad = None\<rparr>)
       (\<lambda>ts. Inr ((Vec ws, Vec [1]) # ts))"
  using assms by (simp add: trajectory_of_run_def initialise_closed trajectory_replay)

lemma trajectory_of_run_negative: "N < 0 \<Longrightarrow> trajectory_of_run G v epochs lr N seed = Inl RuntimeError"
  by (simp add: trajectory_of_run_def initialise_negative)

text \<open>The entries of a trajectory are the parameters the loop has after each iteration.\<close>

lemma trajectory_nth:
  "trajectory G v lr N n st = Inr ts \<Longrightarrow> i < n \<Longrightarrow>
   \<exists>s p. for_loop G v lr N (Suc i) st = Inr (s, p) \<and> ts ! i = (w p, b p)"
proof (induction n arbitrary: st ts i)
  case 0
  then show ?case by simp
next
  case (Suc n)
  from Suc.prems(1) obtain st1 ts1 where it: "iteration G v lr N st = Inr st1"
    and rest: "trajectory G v lr N n st1 = Inr ts1"
    and ts: "ts = (w (snd st1), b (snd st1)) # ts1"
    by (auto simp: bind_eq_Inr)
  show ?case
  proof (cases i)
    case 0
    with it ts show ?thesis
      by (cases st1) simp
  next
    case (Suc j)
    with Suc.prems(2) have "j < n"
      by simp
    from Suc.IH [OF rest this] obtain s p where
      "for_loop G v lr N (Suc j) st1 = Inr (s, p)" "ts1 ! j = (w p, b p)"
      by blast
    with it ts Suc show ?thesis
      by simp
  qed
qed

section \<open>Inputs that never move the weights\<close>

text \<open>
  Convergence is a matter of the samples, not of the loop alone: a generator whose normal
  numbers are all zero never moves \<open>w\<close>, whatever the learning rate and the number of
  epochs.
\<close>

lemma samples_constant: "samples (\<lambda>s. (c, s)) n s = (replicate n c, s)"
  by (induction n) simp_all

lemma descend_zero_gradient: "descend lr ws (replicate (length ws) 0) = ws"
  by (induction ws) (simp_all add: descend_def)

lemma for_loop_zero_inputs:
  assumes "0 \<le> N" and "normal G = (\<lambda>s. (0, s))" and "ready N p"
  shows "\<exists>s1 p1. for_loop G v lr N n (s, p) = Inr (s1, p1) \<and> ready N p1 \<and> w p1 = w p"
  using assms(3)
proof (induction n arbitrary: s p)
  case 0
  then show ?case by simp
next
  case (Suc n)
  from Suc.prems obtain ws bv where sh: "w p = Vec ws" "length ws = nat N" "b p = Vec [bv]"
    by (rule ready_shape)
  let ?xs = "replicate (nat N) (0::real)"
  have dr: "samples (normal G) (nat N) s = (?xs, s)"
    using assms(2) by (simp add: samples_constant)
  let ?gw = "closed_form_grad_w (predicted ws bv ?xs) (expected v ?xs) ?xs"
  let ?p1 = "\<lparr>w = Vec (descend lr ws ?gw), w_grad = Some (Vec (replicate (nat N) 0)),
          b = Vec [bv - lr * closed_form_grad_b (predicted ws bv ?xs) (expected v ?xs)],
          b_grad = Some (Vec [0])\<rparr>"
  have it: "iteration G v lr N (s, p) = Inr (s, ?p1)"
    using assms(1) Suc.prems sh(1) sh(3) dr by (rule iteration_closed)
  have "?gw = replicate (length ws) 0"
    using sh by (simp add: closed_form_grad_w_def)
  with descend_zero_gradient [of lr ws] have same: "w ?p1 = w p"
    using sh by simp
  have r1: "ready N ?p1"
    using sh same by (simp add: ready_def fresh_def)
  from Suc.IH [OF r1, of s] obtain s2 p2 where
    "for_loop G v lr N n (s, ?p1) = Inr (s2, p2)" "ready N p2" "w p2 = w ?p1"
    by blast
  with it same show ?case
    by simp
qed

lemma zero_inputs_never_move_w:
  assumes "0 \<le> N" and "normal G = (\<lambda>s. (0, s))"
  shows "\<exists>s0 p0 s p. initialise G N seed = Inr (s0, p0)
    \<and> train G v epochs lr N seed = Inr (s, p) \<and> w p = w p0"
proof -
  from assms(1) obtain s0 p0 where init: "initialise G N seed = Inr (s0, p0)" and r0: "ready N p0"
    by (rule initialise_ready)
  from for_loop_zero_inputs [OF assms r0, of v lr "nat epochs" s0] obtain s p where
    "for_loop G v lr N (nat epochs) (s0, p0) = Inr (s, p)" "w p = w p0"
    by blast
  with init show ?thesis
    by (simp add: train_def)
qed

section \<open>Unfolding the model on concrete runs\<close>

lemmas run_defs =
  train_def at_start_def initialise_def iteration_def step_def backprop_def update_def
  zero_grads_def zero_inplace_def times_grad_def isub_def target_def backward_call_def
  loss_def y_hat_def leaves_of_def grads_of_def rand_def randn_def ones_def
  add_def sub_def mul_def demo_def first_variant_def second_variant_def

section \<open>The claims of the specification\<close>



text \<open>
  C2. In iteration \<open>i\<close> of a run, from the parameters \<open>w\<close>, \<open>b\<close> at its start and the input
  \<open>x\<close> it draws: \<^verbatim>\<open>loss.backward()\<close> leaves the gradients of this iteration's loss in the
  accumulators, and the iteration ends with \<open>w - learning_rate \<cdot> \<partial>loss/\<partial>w\<close> and
  \<open>b - learning_rate \<cdot> \<partial>loss/\<partial>b\<close>. The new parameters do not depend on what the generator
  gives after this iteration's draw: any generator that gives the same \<open>x\<close> now leads to
  the same parameters.
\<close>

theorem update_is_gradient_step:
  assumes "0 \<le> N" and "i < nat epochs"
  shows "\<exists>s p ws bv xs s1 p1.
      at_start G v learning_rate N seed i = Inr (s, p)
    \<and> train G v epochs learning_rate N seed =
        bind (iteration G v learning_rate N (s, p)) (for_loop G v learning_rate N (nat epochs - Suc i))
    \<and> w p = Vec ws \<and> b p = Vec [bv]
    \<and> samples (normal G) (nat N) s = (xs, s1)
    \<and> backprop v N (Vec xs) p =
        Inr (p\<lparr>w_grad := Some (Vec (closed_form_grad_w (predicted ws bv xs) (expected v xs) xs)),
               b_grad := Some (Vec [closed_form_grad_b (predicted ws bv xs) (expected v xs)])\<rparr>)
    \<and> iteration G v learning_rate N (s, p) = Inr (s1, p1)
    \<and> w p1 = Vec (descend learning_rate ws
          (closed_form_grad_w (predicted ws bv xs) (expected v xs) xs))
    \<and> b p1 = Vec [bv - learning_rate * closed_form_grad_b (predicted ws bv xs) (expected v xs)]
    \<and> (\<forall>G'. fst (samples (normal G') (nat N) s) = xs \<longrightarrow>
          map_sum id snd (iteration G' v learning_rate N (s, p)) = Inr p1)"
proof -
  from assms(1) obtain s p where st: "at_start G v learning_rate N seed i = Inr (s, p)"
    and r: "ready N p"
    by (rule at_start_ready)
  from r obtain ws bv where sh: "w p = Vec ws" "length ws = nat N" "b p = Vec [bv]"
    by (rule ready_shape)
  obtain xs s1 where dr: "samples (normal G) (nat N) s = (xs, s1)"
    by (cases "samples (normal G) (nat N) s")
  from length_samples [of "normal G" "nat N" s] dr have lx: "length xs = nat N"
    by simp
  from r have fr: "fresh (w p) (w_grad p)" "fresh (b p) (b_grad p)"
    by (simp_all add: ready_def)
  let ?gw = "closed_form_grad_w (predicted ws bv xs) (expected v xs) xs"
  let ?gb = "closed_form_grad_b (predicted ws bv xs) (expected v xs)"
  let ?p1 = "\<lparr>w = Vec (descend learning_rate ws ?gw), w_grad = Some (Vec (replicate (nat N) 0)),
          b = Vec [bv - learning_rate * ?gb], b_grad = Some (Vec [0])\<rparr>"
  have bp: "backprop v N (Vec xs) p = Inr (p\<lparr>w_grad := Some (Vec ?gw), b_grad := Some (Vec [?gb])\<rparr>)"
    using assms(1) lx sh(2) sh(1) sh(3) fr by (rule backprop_closed)
  have it: "iteration G v learning_rate N (s, p) = Inr (s1, ?p1)"
    using assms(1) r sh(1) sh(3) dr by (rule iteration_closed)
  have other: "map_sum id snd (iteration G' v learning_rate N (s, p)) = Inr ?p1"
    if same: "fst (samples (normal G') (nat N) s) = xs" for G'
  proof -
    from same have "samples (normal G') (nat N) s = (xs, snd (samples (normal G') (nat N) s))"
      by (metis prod.collapse)
    with assms(1) r sh(1) sh(3)
    have "iteration G' v learning_rate N (s, p) = Inr (snd (samples (normal G') (nat N) s), ?p1)"
      by (rule iteration_closed)
    then show ?thesis
      by simp
  qed
  from assms(2) have "nat epochs - i = Suc (nat epochs - Suc i)"
    by simp
  with train_through_at_start [of i epochs G v learning_rate N seed] assms(2) st
  have tr: "train G v epochs learning_rate N seed =
      bind (iteration G v learning_rate N (s, p)) (for_loop G v learning_rate N (nat epochs - Suc i))"
    by simp
  from st tr sh dr bp it other show ?thesis
    by (intro exI [of _ s] exI [of _ p] exI [of _ ws] exI [of _ bv] exI [of _ xs] exI [of _ s1]
        exI [of _ ?p1]) simp
qed

theorem update_is_gradient_step_witness:
  "(0::int) \<le> 1 \<and> (1::nat) < nat 3
   \<and> (\<exists>s p ws bv xs s1 p1.
      at_start demo first_variant (1 / 2) 1 0 1 = Inr (s, p)
    \<and> w p = Vec ws \<and> b p = Vec [bv]
    \<and> samples (normal demo) (nat 1) s = (xs, s1)
    \<and> iteration demo first_variant (1 / 2) 1 (s, p) = Inr (s1, p1)
    \<and> w p1 = Vec (descend (1 / 2) ws
          (closed_form_grad_w (predicted ws bv xs) (expected first_variant xs) xs))
    \<and> b p1 = Vec [bv - 1 / 2 * closed_form_grad_b (predicted ws bv xs) (expected first_variant xs)]
    \<and> fst (samples (normal \<lparr>uniform = uniform demo, normal = (\<lambda>s. (real s - 3, s + 5))\<rparr>) (nat 1) s) = xs
    \<and> map_sum id snd (iteration \<lparr>uniform = uniform demo, normal = (\<lambda>s. (real s - 3, s + 5))\<rparr>
          first_variant (1 / 2) 1 (s, p)) = Inr p1)"
proof -
  let ?G = "\<lparr>uniform = uniform demo, normal = (\<lambda>s. (real s - 3, s + 5))\<rparr> :: nat generator"
  have agree: "samples (normal demo) (nat 1) s = (xs, s1) \<Longrightarrow> fst (samples (normal ?G) (nat 1) s) = xs"
    for s xs s1
    by (auto simp: demo_def)
  from update_is_gradient_step [of 1 1 3 demo first_variant "1 / 2" 0]
  obtain s p ws bv xs s1 p1 where
    "at_start demo first_variant (1 / 2) 1 0 1 = Inr (s, p)"
    "w p = Vec ws" "b p = Vec [bv]"
    "samples (normal demo) (nat 1) s = (xs, s1)"
    "iteration demo first_variant (1 / 2) 1 (s, p) = Inr (s1, p1)"
    "w p1 = Vec (descend (1 / 2) ws
          (closed_form_grad_w (predicted ws bv xs) (expected first_variant xs) xs))"
    "b p1 = Vec [bv - 1 / 2 * closed_form_grad_b (predicted ws bv xs) (expected first_variant xs)]"
    "\<forall>G'. fst (samples (normal G') (nat 1) s) = xs \<longrightarrow>
          map_sum id snd (iteration G' first_variant (1 / 2) 1 (s, p)) = Inr p1"
    by auto
  with agree [of s xs s1] show ?thesis
    by (intro conjI exI [of _ s] exI [of _ p] exI [of _ ws] exI [of _ bv] exI [of _ xs]
        exI [of _ s1] exI [of _ p1]) simp_all
qed

text \<open>
  C3 as stated fails at the first iteration: the configuration cell creates \<open>w\<close> and \<open>b\<close>
  with no gradient at all, so at the start of iteration 0 the accumulators are \<open>None\<close>,
  not tensors of zeros.
\<close>

theorem accumulators_unset_counterexample:
  "at_start demo first_variant (1 / 100) 2 0 0 =
     Inr (2, \<lparr>w = Vec [1 / 2, 1 / 3], w_grad = None, b = Vec [1], b_grad = None\<rparr>)"
  by (simp add: run_defs numeral_2_eq_2)

text \<open>
  C3, as amended. At the start of iteration \<open>i\<close> of a run the accumulators are unset
  (\<open>i = 0\<close>) or hold zeros (\<open>i > 0\<close>); \<^verbatim>\<open>loss.backward()\<close> then leaves in them exactly the
  gradients of this iteration's loss, which is what the update reads; and when the
  iteration ends they hold zeros.
\<close>

theorem accumulators_fresh_at_start:
  assumes "0 \<le> N" and "i < nat epochs"
  shows "\<exists>s p ws bv xs s1 p1.
      at_start G v learning_rate N seed i = Inr (s, p)
    \<and> train G v epochs learning_rate N seed =
        bind (iteration G v learning_rate N (s, p)) (for_loop G v learning_rate N (nat epochs - Suc i))
    \<and> (if i = 0 then w_grad p = None \<and> b_grad p = None
        else w_grad p = Some (Vec (replicate (nat N) 0)) \<and> b_grad p = Some (Vec [0]))
    \<and> w p = Vec ws \<and> length ws = nat N \<and> b p = Vec [bv]
    \<and> samples (normal G) (nat N) s = (xs, s1)
    \<and> backprop v N (Vec xs) p =
        Inr (p\<lparr>w_grad := Some (Vec (closed_form_grad_w (predicted ws bv xs) (expected v xs) xs)),
               b_grad := Some (Vec [closed_form_grad_b (predicted ws bv xs) (expected v xs)])\<rparr>)
    \<and> iteration G v learning_rate N (s, p) = Inr (s1, p1)
    \<and> w_grad p1 = Some (Vec (replicate (nat N) 0)) \<and> b_grad p1 = Some (Vec [0])"
proof -
  from assms(1) obtain s p where st: "at_start G v learning_rate N seed i = Inr (s, p)"
    and r: "ready N p"
    and g: "if i = 0 then w_grad p = None \<and> b_grad p = None
         else w_grad p = Some (Vec (replicate (nat N) 0)) \<and> b_grad p = Some (Vec [0])"
    by (rule at_start_ready)
  from r obtain ws bv where sh: "w p = Vec ws" "length ws = nat N" "b p = Vec [bv]"
    by (rule ready_shape)
  obtain xs s1 where dr: "samples (normal G) (nat N) s = (xs, s1)"
    by (cases "samples (normal G) (nat N) s")
  from length_samples [of "normal G" "nat N" s] dr have lx: "length xs = nat N"
    by simp
  from r have fr: "fresh (w p) (w_grad p)" "fresh (b p) (b_grad p)"
    by (simp_all add: ready_def)
  let ?gw = "closed_form_grad_w (predicted ws bv xs) (expected v xs) xs"
  let ?gb = "closed_form_grad_b (predicted ws bv xs) (expected v xs)"
  let ?p1 = "\<lparr>w = Vec (descend learning_rate ws ?gw), w_grad = Some (Vec (replicate (nat N) 0)),
          b = Vec [bv - learning_rate * ?gb], b_grad = Some (Vec [0])\<rparr>"
  have bp: "backprop v N (Vec xs) p = Inr (p\<lparr>w_grad := Some (Vec ?gw), b_grad := Some (Vec [?gb])\<rparr>)"
    using assms(1) lx sh(2) sh(1) sh(3) fr by (rule backprop_closed)
  have it: "iteration G v learning_rate N (s, p) = Inr (s1, ?p1)"
    using assms(1) r sh(1) sh(3) dr by (rule iteration_closed)
  from assms(2) have "nat epochs - i = Suc (nat epochs - Suc i)"
    by simp
  with train_through_at_start [of i epochs G v learning_rate N seed] assms(2) st
  have tr: "train G v epochs learning_rate N seed =
      bind (iteration G v learning_rate N (s, p)) (for_loop G v learning_rate N (nat epochs - Suc i))"
    by simp
  from st tr g sh dr bp it show ?thesis
    by (intro exI [of _ s] exI [of _ p] exI [of _ ws] exI [of _ bv] exI [of _ xs] exI [of _ s1]
        exI [of _ ?p1]) simp
qed

theorem accumulators_fresh_at_start_witness:
  "(0::int) \<le> 2 \<and> (1::nat) < nat 3
   \<and> (\<exists>s p s1 p1.
      at_start demo first_variant (1 / 2) 2 0 1 = Inr (s, p)
    \<and> w_grad p = Some (Vec [0, 0]) \<and> b_grad p = Some (Vec [0])
    \<and> iteration demo first_variant (1 / 2) 2 (s, p) = Inr (s1, p1)
    \<and> w_grad p1 = Some (Vec [0, 0]) \<and> b_grad p1 = Some (Vec [0]))"
  using accumulators_fresh_at_start [of 2 1 3 demo first_variant "1 / 2" 0]
  by (auto simp: numeral_2_eq_2)

text \<open>
  C4 as stated fails: with \<open>epochs = 0\<close> the run returns normally; with \<open>N = 0\<close> it returns
  normally with \<open>b\<close> changed from 1; with \<open>learning_rate = -1\<close> it returns normally with \<open>w\<close>
  and \<open>b\<close> changed.
\<close>

theorem no_validation_counterexample:
  "train demo first_variant 0 (1/100) 2 0 =
     Inr (2, \<lparr>w = Vec [1 / 2, 1 / 3], w_grad = None, b = Vec [1], b_grad = None\<rparr>)
   \<and> train demo first_variant 1 (1/100) 0 0 =
     Inr (0, \<lparr>w = Vec [], w_grad = Some (Vec []), b = Vec [47 / 50], b_grad = Some (Vec [0])\<rparr>)
   \<and> train demo first_variant 1 (- 1) 2 0 =
     Inr (4, \<lparr>w = Vec [- (21 / 2), 1 / 3], w_grad = Some (Vec [0, 0]),
              b = Vec [12], b_grad = Some (Vec [0])\<rparr>)"
  by (simp add: run_defs numeral_2_eq_2)

text \<open>
  C4, as amended. The cells validate nothing. A negative \<open>N\<close> (from \<open>-2^63\<close> on) makes the
  configuration cell fail, where the library refuses a tensor of negative size
  (\<open>RuntimeError\<close>), before any iteration. With \<open>epochs \<le> 0\<close> nothing is raised for it: no
  iteration runs and the run ends as the configuration cell does, \<open>w\<close> and \<open>b\<close> at their
  initial values. \<open>N = 0\<close> is accepted: the run returns normally. The learning rate is
  never checked: a run that returns normally with one learning rate returns normally with
  every other, a non-positive one too.
\<close>

theorem train_validates_nothing:
  "(- (2 ^ 63) \<le> N \<and> N < 0 \<longrightarrow> initialise G N seed = Inl RuntimeError
        \<and> train G v epochs learning_rate N seed = Inl RuntimeError)
   \<and> (epochs \<le> 0 \<longrightarrow> train G v epochs learning_rate N seed = initialise G N seed)
   \<and> (N = 0 \<longrightarrow> (\<exists>s p. train G v epochs learning_rate N seed = Inr (s, p)))
   \<and> (train G v epochs other_rate N seed = Inr st \<longrightarrow>
        (\<exists>s p. train G v epochs learning_rate N seed = Inr (s, p)))"
proof (intro conjI impI)
  assume "- (2 ^ 63) \<le> N \<and> N < 0"
  then show "initialise G N seed = Inl RuntimeError"
    by (intro initialise_negative) simp
  then show "train G v epochs learning_rate N seed = Inl RuntimeError"
    by (simp add: train_def)
next
  assume "epochs \<le> 0"
  then show "train G v epochs learning_rate N seed = initialise G N seed"
    by (cases "initialise G N seed") (simp_all add: train_def)
next
  assume "N = 0"
  then have n: "0 \<le> N"
    by simp
  then obtain s0 p0 where init: "initialise G N seed = Inr (s0, p0)" and r0: "ready N p0"
    by (rule initialise_ready)
  from for_loop_ready [OF n r0, of G v learning_rate "nat epochs" s0] init
  show "\<exists>s p. train G v epochs learning_rate N seed = Inr (s, p)"
    by (auto simp: train_def)
next
  assume "train G v epochs other_rate N seed = Inr st"
  then obtain st0 where "initialise G N seed = Inr st0"
    by (auto simp: train_def bind_eq_Inr)
  then obtain s0 p0 where init: "initialise G N seed = Inr (s0, p0)"
    by (cases st0) simp
  from initialise_Inr_ready [OF init] have n: "0 \<le> N" and r0: "ready N p0"
    by simp_all
  from for_loop_ready [OF n r0, of G v learning_rate "nat epochs" s0] init
  show "\<exists>s p. train G v epochs learning_rate N seed = Inr (s, p)"
    by (auto simp: train_def)
qed

theorem train_validates_nothing_witness:
  "- (2 ^ 63) \<le> (- 1 :: int) \<and> (- 1 :: int) < 0
   \<and> train demo first_variant 2 (1 / 100) (- 1) 0 = Inl RuntimeError
   \<and> (- 3 :: int) \<le> 0 \<and> train demo first_variant (- 3) (1 / 100) 2 0 = initialise demo 2 0
   \<and> (\<exists>s p. train demo first_variant 1 (- 1) 0 0 = Inr (s, p))
   \<and> train demo first_variant 1 (1 / 100) 2 0 =
       Inr (4, \<lparr>w = Vec [61 / 100, 1 / 3], w_grad = Some (Vec [0, 0]),
                b = Vec [89 / 100], b_grad = Some (Vec [0])\<rparr>)
   \<and> (\<exists>s p. train demo first_variant 1 (- 1) 2 0 = Inr (s, p))"
proof -
  have run: "train demo first_variant 1 (1 / 100) 2 0 =
       Inr (4, \<lparr>w = Vec [61 / 100, 1 / 3], w_grad = Some (Vec [0, 0]),
                b = Vec [89 / 100], b_grad = Some (Vec [0])\<rparr>)"
    by (simp add: run_defs numeral_2_eq_2)
  from run
    train_validates_nothing [of "- 1" demo 0 first_variant 2 "1 / 100"]
    train_validates_nothing [of 2 demo 0 first_variant "- 3" "1 / 100"]
    train_validates_nothing [of 0 demo 0 first_variant 1 "- 1"]
    train_validates_nothing [of 2 demo 0 first_variant 1 "- 1" "1 / 100"
      "(4, \<lparr>w = Vec [61 / 100, 1 / 3], w_grad = Some (Vec [0, 0]),
                b = Vec [89 / 100], b_grad = Some (Vec [0])\<rparr>)"]
  show ?thesis
    by simp
qed

text \<open>
  C5. The squared error of a step has shape \<open>[1]\<close>, because \<open>b\<close> has: its sum and its mean
  are the same number, \<^verbatim>\<open>loss.backward()\<close> leaves the same gradients for both, and the
  two versions of the loop, run with the same slope and offset on the same parameters and
  inputs, make the same updates, step by step and over the whole run.
\<close>

theorem sum_and_mean_coincide:
  assumes "shape (b p) = [1]"
  shows "forward (leaves_of p) (loss SumReduction x (Scalar yv)) =
         forward (leaves_of p) (loss MeanReduction x (Scalar yv))
    \<and> step (v\<lparr>reduce := SumReduction\<rparr>) learning_rate N x p =
      step (v\<lparr>reduce := MeanReduction\<rparr>) learning_rate N x p
    \<and> iteration G (v\<lparr>reduce := SumReduction\<rparr>) learning_rate N (s, p) =
      iteration G (v\<lparr>reduce := MeanReduction\<rparr>) learning_rate N (s, p)
    \<and> train G (v\<lparr>reduce := SumReduction\<rparr>) epochs learning_rate N seed =
      train G (v\<lparr>reduce := MeanReduction\<rparr>) epochs learning_rate N seed"
proof -
  from assms obtain bs where bs: "b p = Vec bs" "length bs = 1"
    by (cases "b p") simp_all
  then obtain bv where bv: "b p = Vec [bv]"
    by (cases bs) simp_all
  then have fw: "forward (leaves_of p) (loss SumReduction x (Scalar yv)) =
         forward (leaves_of p) (loss MeanReduction x (Scalar yv))"
    by (intro forward_sum_mean [of _ bv]) (simp add: leaves_of_def)
  have st: "step (v\<lparr>reduce := SumReduction\<rparr>) learning_rate N x p =
      step (v\<lparr>reduce := MeanReduction\<rparr>) learning_rate N x p"
    using assms by (rule step_sum_mean)
  have it: "iteration G (v\<lparr>reduce := SumReduction\<rparr>) learning_rate N (s, p) =
      iteration G (v\<lparr>reduce := MeanReduction\<rparr>) learning_rate N (s, p)"
    using assms by (simp add: iteration_def step_sum_mean)
  have tr: "train G (v\<lparr>reduce := SumReduction\<rparr>) epochs learning_rate N seed =
      train G (v\<lparr>reduce := MeanReduction\<rparr>) epochs learning_rate N seed"
  proof (cases "initialise G N seed")
    case (Inl e)
    then show ?thesis by (simp add: train_def)
  next
    case (Inr st0)
    obtain s0 p0 where st0: "st0 = (s0, p0)"
      by (cases st0)
    with Inr have "shape (b p0) = [1]"
      by (auto simp: initialise_def ones_def bind_eq_Inr)
    with Inr st0 show ?thesis
      by (simp add: train_def for_loop_sum_mean)
  qed
  from fw st it tr show ?thesis
    by simp
qed

theorem sum_and_mean_coincide_witness:
  "shape (b \<lparr>w = Vec [0, 1 / 4], w_grad = None, b = Vec [1], b_grad = None\<rparr>) = [1]
   \<and> step (first_variant\<lparr>reduce := MeanReduction\<rparr>) (1 / 2) 2 (Vec [1, 2])
        \<lparr>w = Vec [0, 1 / 4], w_grad = None, b = Vec [1], b_grad = None\<rparr> =
      step first_variant (1 / 2) 2 (Vec [1, 2])
        \<lparr>w = Vec [0, 1 / 4], w_grad = None, b = Vec [1], b_grad = None\<rparr>
   \<and> train demo (first_variant\<lparr>reduce := MeanReduction\<rparr>) 3 (1 / 2) 2 0 =
      train demo first_variant 3 (1 / 2) 2 0"
  using sum_and_mean_coincide [of "\<lparr>w = Vec [0, 1 / 4], w_grad = None, b = Vec [1], b_grad = None\<rparr>"
      "Vec [1, 2]" 0 first_variant "1 / 2" 2 demo 0 3 0]
  by (simp add: first_variant_def)

text \<open>
  C6. With \<open>epochs = 0\<close> the loop runs no iteration: the run ends in the state the
  configuration cell leaves, so \<open>w\<close> and \<open>b\<close> have their initial values.
\<close>

theorem zero_steps_leave_initial_values:
  "train G v 0 learning_rate N seed = initialise G N seed"
  by (cases "initialise G N seed") (simp_all add: train_def)

text \<open>
  C7. Two runs that sample the same initial \<open>w\<close> and the same input \<open>x\<close> in every
  iteration, as two runs from one seed do, go through the same values of \<open>w\<close> and \<open>b\<close>,
  step by step.
\<close>

theorem same_samples_same_trajectory:
  assumes "fst (samples (uniform G1) (nat N) seed1) = fst (samples (uniform G2) (nat N) seed2)"
    and "inputs G1 N (nat epochs) (snd (samples (uniform G1) (nat N) seed1)) =
         inputs G2 N (nat epochs) (snd (samples (uniform G2) (nat N) seed2))"
  shows "trajectory_of_run G1 v epochs learning_rate N seed1 =
         trajectory_of_run G2 v epochs learning_rate N seed2"
proof (cases "0 \<le> N")
  case True
  have "trajectory_of_run G1 v epochs learning_rate N seed1 =
     bind (replay v learning_rate N (inputs G1 N (nat epochs) (snd (samples (uniform G1) (nat N) seed1)))
             \<lparr>w = Vec (fst (samples (uniform G1) (nat N) seed1)), w_grad = None, b = Vec [1], b_grad = None\<rparr>)
       (\<lambda>ts. Inr ((Vec (fst (samples (uniform G1) (nat N) seed1)), Vec [1]) # ts))"
    using True by (intro trajectory_of_run_replay) simp_all
  moreover have "trajectory_of_run G2 v epochs learning_rate N seed2 =
     bind (replay v learning_rate N (inputs G2 N (nat epochs) (snd (samples (uniform G2) (nat N) seed2)))
             \<lparr>w = Vec (fst (samples (uniform G2) (nat N) seed2)), w_grad = None, b = Vec [1], b_grad = None\<rparr>)
       (\<lambda>ts. Inr ((Vec (fst (samples (uniform G2) (nat N) seed2)), Vec [1]) # ts))"
    using True by (intro trajectory_of_run_replay) simp_all
  ultimately show ?thesis
    using assms by simp
next
  case False
  then show ?thesis
    by (simp add: trajectory_of_run_negative)
qed

theorem same_samples_same_trajectory_witness:
  "fst (samples (uniform demo) (nat 1) 0) =
     fst (samples (uniform \<lparr>uniform = (\<lambda>s. (1 / (real s - 8), s + 1)),
                            normal = (\<lambda>s. (real s - 13, s + 1))\<rparr>) (nat 1) 10)
   \<and> inputs demo 1 (nat 2) (snd (samples (uniform demo) (nat 1) 0)) =
     inputs \<lparr>uniform = (\<lambda>s. (1 / (real s - 8), s + 1)), normal = (\<lambda>s. (real s - 13, s + 1))\<rparr>
       1 (nat 2) (snd (samples (uniform \<lparr>uniform = (\<lambda>s. (1 / (real s - 8), s + 1)),
                            normal = (\<lambda>s. (real s - 13, s + 1))\<rparr>) (nat 1) 10))
   \<and> trajectory_of_run demo first_variant 2 (1 / 2) 1 0 =
     trajectory_of_run \<lparr>uniform = (\<lambda>s. (1 / (real s - 8), s + 1)), normal = (\<lambda>s. (real s - 13, s + 1))\<rparr>
       first_variant 2 (1 / 2) 1 (10 :: nat)"
proof -
  let ?G = "\<lparr>uniform = (\<lambda>s. (1 / (real s - 8), s + 1)), normal = (\<lambda>s. (real s - 13, s + 1))\<rparr> :: nat generator"
  have init: "fst (samples (uniform demo) (nat 1) 0) = fst (samples (uniform ?G) (nat 1) 10)"
    by (simp add: demo_def)
  have draws: "inputs demo 1 (nat 2) (snd (samples (uniform demo) (nat 1) 0)) =
     inputs ?G 1 (nat 2) (snd (samples (uniform ?G) (nat 1) 10))"
    by (simp add: demo_def numeral_2_eq_2)
  from init draws same_samples_same_trajectory [OF init draws, of first_variant "1 / 2"]
  show ?thesis
    by simp
qed

text \<open>
  C8. In every iteration \<open>i\<close> of a run the target is \<open>y = a \<cdot> sum(x) + c\<close> for the input \<open>x\<close>
  the iteration draws, with the slope \<open>a\<close> and the intercept \<open>c = - offset\<close> of the variant,
  the same in all iterations: this \<open>y\<close> is the constant of the loss that
  \<^verbatim>\<open>loss.backward()\<close> differentiates, and the parameters the iteration ends with are those
  of a gradient step towards it. The cell's expression \<open>dot(a \<cdot> ones(N), x) - offset\<close> is
  \<open>a \<cdot> sum(x) + c\<close> for every \<open>x\<close> of size \<open>N\<close>; \<open>a = 3\<close>, \<open>c = -2\<close> in the first version of the
  notebook and \<open>a = 2\<close>, \<open>c = -5\<close> in the second.
\<close>

theorem target_in_every_iteration:
  assumes "0 \<le> N" and "i < nat epochs"
  shows "(\<forall>x. length x = nat N \<longrightarrow>
        target v N (Vec x) = Inr (Scalar (slope v * sum_list x + (- offset v)))
      \<and> target first_variant N (Vec x) = Inr (Scalar (3 * sum_list x + (- 2)))
      \<and> target second_variant N (Vec x) = Inr (Scalar (2 * sum_list x + (- 5))))
    \<and> (\<exists>s p ws bv xs s1 p1.
        at_start G v learning_rate N seed i = Inr (s, p)
      \<and> train G v epochs learning_rate N seed =
          bind (iteration G v learning_rate N (s, p))
            (for_loop G v learning_rate N (nat epochs - Suc i))
      \<and> w p = Vec ws \<and> b p = Vec [bv]
      \<and> samples (normal G) (nat N) s = (xs, s1)
      \<and> target v N (Vec xs) = Inr (Scalar (slope v * sum_list xs + (- offset v)))
      \<and> backprop v N (Vec xs) p =
          bind (backward_call (leaves_of p)
                 (loss (reduce v) (Vec xs) (Scalar (slope v * sum_list xs + (- offset v))))
                 (grads_of p))
            (\<lambda>gr. Inr (p\<lparr>w_grad := gr W, b_grad := gr B\<rparr>))
      \<and> iteration G v learning_rate N (s, p) = Inr (s1, p1)
      \<and> w p1 = Vec (descend learning_rate ws
            (closed_form_grad_w (predicted ws bv xs) (slope v * sum_list xs + (- offset v)) xs))
      \<and> b p1 = Vec [bv - learning_rate *
            closed_form_grad_b (predicted ws bv xs) (slope v * sum_list xs + (- offset v))])"
proof -
  have line: "target u N (Vec x) = Inr (Scalar (slope u * sum_list x + (- offset u)))"
    if "length x = nat N" for u x
    using assms(1) that target_closed [of N x u] by (simp add: expected_def)
  have every: "\<forall>x. length x = nat N \<longrightarrow>
        target v N (Vec x) = Inr (Scalar (slope v * sum_list x + (- offset v)))
      \<and> target first_variant N (Vec x) = Inr (Scalar (3 * sum_list x + (- 2)))
      \<and> target second_variant N (Vec x) = Inr (Scalar (2 * sum_list x + (- 5)))"
    using line [of _ v] line [of _ first_variant] line [of _ second_variant]
    by (simp add: first_variant_def second_variant_def)
  from assms(1) obtain s p where st: "at_start G v learning_rate N seed i = Inr (s, p)"
    and r: "ready N p"
    by (rule at_start_ready)
  from r obtain ws bv where sh: "w p = Vec ws" "length ws = nat N" "b p = Vec [bv]"
    by (rule ready_shape)
  obtain xs s1 where dr: "samples (normal G) (nat N) s = (xs, s1)"
    by (cases "samples (normal G) (nat N) s")
  from length_samples [of "normal G" "nat N" s] dr have lx: "length xs = nat N"
    by simp
  let ?y = "slope v * sum_list xs + (- offset v)"
  let ?p1 = "\<lparr>w = Vec (descend learning_rate ws (closed_form_grad_w (predicted ws bv xs) ?y xs)),
          w_grad = Some (Vec (replicate (nat N) 0)),
          b = Vec [bv - learning_rate * closed_form_grad_b (predicted ws bv xs) ?y],
          b_grad = Some (Vec [0])\<rparr>"
  have tg: "target v N (Vec xs) = Inr (Scalar ?y)"
    using lx by (rule line)
  then have bp: "backprop v N (Vec xs) p =
      bind (backward_call (leaves_of p) (loss (reduce v) (Vec xs) (Scalar ?y)) (grads_of p))
        (\<lambda>gr. Inr (p\<lparr>w_grad := gr W, b_grad := gr B\<rparr>))"
    by (simp add: backprop_def)
  have "iteration G v learning_rate N (s, p) =
      Inr (s1, \<lparr>w = Vec (descend learning_rate ws
                  (closed_form_grad_w (predicted ws bv xs) (expected v xs) xs)),
          w_grad = Some (Vec (replicate (nat N) 0)),
          b = Vec [bv - learning_rate * closed_form_grad_b (predicted ws bv xs) (expected v xs)],
          b_grad = Some (Vec [0])\<rparr>)"
    using assms(1) r sh(1) sh(3) dr by (rule iteration_closed)
  then have it: "iteration G v learning_rate N (s, p) = Inr (s1, ?p1)"
    by (simp add: expected_def)
  from assms(2) have "nat epochs - i = Suc (nat epochs - Suc i)"
    by simp
  with train_through_at_start [of i epochs G v learning_rate N seed] assms(2) st
  have tr: "train G v epochs learning_rate N seed =
      bind (iteration G v learning_rate N (s, p)) (for_loop G v learning_rate N (nat epochs - Suc i))"
    by simp
  have "\<exists>s p ws bv xs s1 p1.
        at_start G v learning_rate N seed i = Inr (s, p)
      \<and> train G v epochs learning_rate N seed =
          bind (iteration G v learning_rate N (s, p))
            (for_loop G v learning_rate N (nat epochs - Suc i))
      \<and> w p = Vec ws \<and> b p = Vec [bv]
      \<and> samples (normal G) (nat N) s = (xs, s1)
      \<and> target v N (Vec xs) = Inr (Scalar (slope v * sum_list xs + (- offset v)))
      \<and> backprop v N (Vec xs) p =
          bind (backward_call (leaves_of p)
                 (loss (reduce v) (Vec xs) (Scalar (slope v * sum_list xs + (- offset v))))
                 (grads_of p))
            (\<lambda>gr. Inr (p\<lparr>w_grad := gr W, b_grad := gr B\<rparr>))
      \<and> iteration G v learning_rate N (s, p) = Inr (s1, p1)
      \<and> w p1 = Vec (descend learning_rate ws
            (closed_form_grad_w (predicted ws bv xs) (slope v * sum_list xs + (- offset v)) xs))
      \<and> b p1 = Vec [bv - learning_rate *
            closed_form_grad_b (predicted ws bv xs) (slope v * sum_list xs + (- offset v))]"
    using st tr sh dr tg bp it
    by (intro exI [of _ s] exI [of _ p] exI [of _ ws] exI [of _ bv] exI [of _ xs] exI [of _ s1]
        exI [of _ ?p1]) simp
  with every show ?thesis
    by blast
qed

theorem target_in_every_iteration_witness:
  "(0::int) \<le> 1 \<and> (1::nat) < nat 3
   \<and> length [4 :: real] = nat 1
   \<and> target first_variant 1 (Vec [4]) = Inr (Scalar 10)
   \<and> target second_variant 1 (Vec [4]) = Inr (Scalar 3)
   \<and> (\<exists>s p ws bv xs s1 p1.
        at_start demo first_variant (1 / 2) 1 0 1 = Inr (s, p)
      \<and> w p = Vec ws \<and> b p = Vec [bv]
      \<and> samples (normal demo) (nat 1) s = (xs, s1)
      \<and> target first_variant 1 (Vec xs) = Inr (Scalar (3 * sum_list xs + (- 2)))
      \<and> iteration demo first_variant (1 / 2) 1 (s, p) = Inr (s1, p1)
      \<and> w p1 = Vec (descend (1 / 2) ws
            (closed_form_grad_w (predicted ws bv xs) (3 * sum_list xs + (- 2)) xs))
      \<and> b p1 = Vec [bv - 1 / 2 *
            closed_form_grad_b (predicted ws bv xs) (3 * sum_list xs + (- 2))])"
proof -
  note inst = target_in_every_iteration [of 1 1 3 first_variant demo "1 / 2" 0]
  have fixed: "target first_variant 1 (Vec [4]) = Inr (Scalar 10)"
    "target second_variant 1 (Vec [4]) = Inr (Scalar 3)"
    using conjunct1 [OF inst, THEN spec, of "[4]"]
    by (simp_all add: first_variant_def)
  from inst obtain s p ws bv xs s1 p1 where
    "at_start demo first_variant (1 / 2) 1 0 1 = Inr (s, p)"
    "w p = Vec ws" "b p = Vec [bv]"
    "samples (normal demo) (nat 1) s = (xs, s1)"
    "target first_variant 1 (Vec xs) =
       Inr (Scalar (slope first_variant * sum_list xs + (- offset first_variant)))"
    "iteration demo first_variant (1 / 2) 1 (s, p) = Inr (s1, p1)"
    "w p1 = Vec (descend (1 / 2) ws
            (closed_form_grad_w (predicted ws bv xs)
              (slope first_variant * sum_list xs + (- offset first_variant)) xs))"
    "b p1 = Vec [bv - 1 / 2 *
            closed_form_grad_b (predicted ws bv xs)
              (slope first_variant * sum_list xs + (- offset first_variant))]"
    by auto
  then have "\<exists>s p ws bv xs s1 p1.
        at_start demo first_variant (1 / 2) 1 0 1 = Inr (s, p)
      \<and> w p = Vec ws \<and> b p = Vec [bv]
      \<and> samples (normal demo) (nat 1) s = (xs, s1)
      \<and> target first_variant 1 (Vec xs) = Inr (Scalar (3 * sum_list xs + (- 2)))
      \<and> iteration demo first_variant (1 / 2) 1 (s, p) = Inr (s1, p1)
      \<and> w p1 = Vec (descend (1 / 2) ws
            (closed_form_grad_w (predicted ws bv xs) (3 * sum_list xs + (- 2)) xs))
      \<and> b p1 = Vec [bv - 1 / 2 *
            closed_form_grad_b (predicted ws bv xs) (3 * sum_list xs + (- 2))]"
    by (intro exI [of _ s] exI [of _ p] exI [of _ ws] exI [of _ bv] exI [of _ xs] exI [of _ s1]
        exI [of _ p1]) (simp add: first_variant_def)
  with fixed show ?thesis
    by simp
qed

text \<open>
  C10. With \<open>learning_rate = 0\<close>, which the cells accept, a run of any number of epochs
  ends with \<open>w\<close> and \<open>b\<close> equal to the values the configuration cell gave them.
\<close>

theorem zero_rate_keeps_parameters:
  assumes "0 \<le> N"
  shows "\<exists>s0 p0 s p. initialise G N seed = Inr (s0, p0)
    \<and> train G v epochs 0 N seed = Inr (s, p) \<and> w p = w p0 \<and> b p = b p0"
proof -
  from assms obtain s0 p0 where init: "initialise G N seed = Inr (s0, p0)" and r0: "ready N p0"
    by (rule initialise_ready)
  from for_loop_zero_rate [OF assms r0, of G v "nat epochs" s0] obtain s p where
    "for_loop G v 0 N (nat epochs) (s0, p0) = Inr (s, p)" "w p = w p0" "b p = b p0"
    by blast
  with init show ?thesis
    by (simp add: train_def)
qed

theorem zero_rate_keeps_parameters_witness:
  "(0 :: int) \<le> 2 \<and> (\<exists>s0 p0 s p. initialise demo 2 0 = Inr (s0, p0)
    \<and> train demo first_variant 3 0 2 0 = Inr (s, p) \<and> w p = w p0 \<and> b p = b p0)"
  using zero_rate_keeps_parameters [of 2 demo 0 first_variant 3] by simp

end
